theory Spec2Isabelle
  imports Complex_Main "HOL-Library.Word"
begin

unbundle bit_operations_syntax

section \<open>Library functions the ledger calls\<close>

subsection \<open>crypto/sha256\<close>

text \<open>
  \<^verbatim>\<open>sha256.Sum256\<close> after FIPS 180-4. Bytes are naturals below 256 and 32-bit words are
  naturals below \<open>2 ^ 32\<close>, the constants written in decimal; every addition is reduced modulo \<open>2 ^ 32\<close> (\<open>add32\<close>), a
  rotation is written with \<open>div\<close> and \<open>mod\<close>. The message schedule is kept as a window of
  sixteen words that moves by one word in every round.
\<close>

type_synonym byte = nat
type_synonym uint32 = nat

definition K256 :: "uint32 list" where
  "K256 =
  [1116352408, 1899447441, 3049323471, 3921009573, 961987163, 1508970993,
   2453635748, 2870763221, 3624381080, 310598401, 607225278, 1426881987,
   1925078388, 2162078206, 2614888103, 3248222580, 3835390401, 4022224774,
   264347078, 604807628, 770255983, 1249150122, 1555081692, 1996064986,
   2554220882, 2821834349, 2952996808, 3210313671, 3336571891, 3584528711,
   113926993, 338241895, 666307205, 773529912, 1294757372, 1396182291,
   1695183700, 1986661051, 2177026350, 2456956037, 2730485921, 2820302411,
   3259730800, 3345764771, 3516065817, 3600352804, 4094571909, 275423344,
   430227734, 506948616, 659060556, 883997877, 958139571, 1322822218,
   1537002063, 1747873779, 1955562222, 2024104815, 2227730452, 2361852424,
   2428436474, 2756734187, 3204031479, 3329325298]"

definition init256 :: "uint32 list" where
  "init256 =
  [1779033703, 3144134277, 1013904242, 2773480762, 1359893119, 2600822924,
   528734635, 1541459225]"

definition add32 :: "uint32 \<Rightarrow> uint32 \<Rightarrow> uint32" where
  "add32 x y = (x + y) mod 4294967296"

definition rotr :: "nat \<Rightarrow> uint32 \<Rightarrow> uint32" where
  "rotr n x = x div 2 ^ n + (x mod 2 ^ n) * 2 ^ (32 - n)"

definition bsig0 :: "uint32 \<Rightarrow> uint32" where
  "bsig0 x = rotr 2 x XOR rotr 13 x XOR rotr 22 x"

definition bsig1 :: "uint32 \<Rightarrow> uint32" where
  "bsig1 x = rotr 6 x XOR rotr 11 x XOR rotr 25 x"

definition ssig0 :: "uint32 \<Rightarrow> uint32" where
  "ssig0 x = rotr 7 x XOR rotr 18 x XOR x div 2 ^ 3"

definition ssig1 :: "uint32 \<Rightarrow> uint32" where
  "ssig1 x = rotr 17 x XOR rotr 19 x XOR x div 2 ^ 10"

definition ch :: "uint32 \<Rightarrow> uint32 \<Rightarrow> uint32 \<Rightarrow> uint32" where
  "ch e f g = (e AND f) XOR ((4294967295 - e) AND g)"

definition maj :: "uint32 \<Rightarrow> uint32 \<Rightarrow> uint32 \<Rightarrow> uint32" where
  "maj a b c = (a AND b) XOR (a AND c) XOR (b AND c)"

definition next_w :: "uint32 list \<Rightarrow> uint32" where
  "next_w w = add32 (add32 (ssig1 (w ! 14)) (w ! 9)) (add32 (ssig0 (w ! 1)) (w ! 0))"

fun round256 :: "uint32 list \<times> uint32 list \<Rightarrow> uint32 \<Rightarrow> uint32 list \<times> uint32 list" where
  "round256 ([a, b, c, d, e, f, g, h], w) k =
     (let t1 = add32 (add32 (add32 h (bsig1 e)) (add32 (ch e f g) k)) (hd w);
          t2 = add32 (bsig0 a) (maj a b c)
      in ([add32 t1 t2, a, b, c, add32 d t1, e, f, g], tl w @ [next_w w]))"
| "round256 sw k = sw"

definition block256 :: "uint32 list \<Rightarrow> uint32 list \<Rightarrow> uint32 list" where
  "block256 s w = map2 add32 s (fst (foldl round256 (s, w) K256))"

fun blocks256 :: "uint32 list \<Rightarrow> uint32 list \<Rightarrow> uint32 list" where
  "blocks256 s [] = s"
| "blocks256 s (w # ws) = blocks256 (block256 s (take 16 (w # ws))) (drop 15 ws)"

fun be32 :: "byte list \<Rightarrow> uint32 list" where
  "be32 (a # b # c # d # bs) = (((a * 256 + b) * 256 + c) * 256 + d) # be32 bs"
| "be32 bs = []"

definition bytes32 :: "uint32 \<Rightarrow> byte list" where
  "bytes32 n = [n div 16777216 mod 256, n div 65536 mod 256, n div 256 mod 256, n mod 256]"

definition bytes64 :: "nat \<Rightarrow> byte list" where
  "bytes64 n = bytes32 (n div 4294967296 mod 4294967296) @ bytes32 (n mod 4294967296)"

definition pad256 :: "byte list \<Rightarrow> byte list" where
  "pad256 m =
     m @ [128] @ replicate ((119 - length m mod 64) mod 64) 0 @ bytes64 (8 * length m)"

definition sha256_Sum256 :: "byte list \<Rightarrow> byte list" where
  "sha256_Sum256 m = concat (map bytes32 (blocks256 init256 (be32 (pad256 m))))"

subsection \<open>encoding/hex and strconv\<close>

definition hexdigit :: "nat \<Rightarrow> char" where
  "hexdigit n = ''0123456789abcdef'' ! n"

definition hex_EncodeToString :: "byte list \<Rightarrow> string" where
  "hex_EncodeToString bs = concat (map (\<lambda>b. [hexdigit (b div 16), hexdigit (b mod 16)]) bs)"

definition bytes_of :: "string \<Rightarrow> byte list" where
  "bytes_of s = map of_char s"

definition digit10 :: "nat \<Rightarrow> char" where
  "digit10 n = ''0123456789'' ! n"

function digits10 :: "nat \<Rightarrow> string" where
  "digits10 n = (if n < 10 then [digit10 n] else digits10 (n div 10) @ [digit10 (n mod 10)])"
  by pat_completeness auto
termination
  by (relation "measure (\<lambda>n. n)") auto

declare digits10.simps [simp del]

text \<open>\<^verbatim>\<open>strconv.FormatInt(i, 10)\<close>; \<^verbatim>\<open>strconv.Itoa\<close> is the same function on \<^verbatim>\<open>int\<close>.\<close>

definition strconv_FormatInt :: "int \<Rightarrow> string" where
  "strconv_FormatInt i = (if i < 0 then CHR ''-'' # digits10 (nat (- i)) else digits10 (nat i))"

definition strconv_Itoa :: "int \<Rightarrow> string" where
  "strconv_Itoa i = strconv_FormatInt i"

subsection \<open>strings\<close>

datatype error = NegativeRepeatCount | IndexOutOfRange

text \<open>\<^verbatim>\<open>strings.Repeat\<close> panics on a negative count.\<close>

definition strings_Repeat :: "string \<Rightarrow> int \<Rightarrow> error + string" where
  "strings_Repeat s count =
     (if count < 0 then Inl NegativeRepeatCount else Inr (concat (replicate (nat count) s)))"

definition strings_HasPrefix :: "string \<Rightarrow> string \<Rightarrow> bool" where
  "strings_HasPrefix s pre \<longleftrightarrow> length pre \<le> length s \<and> take (length pre) s = pre"

definition strings_HasSuffix :: "string \<Rightarrow> string \<Rightarrow> bool" where
  "strings_HasSuffix s suf \<longleftrightarrow>
     length suf \<le> length s \<and> drop (length s - length suf) s = suf"

section \<open>lab1: the chain with the fixed hash suffix\<close>

text \<open>
  \<^verbatim>\<open>Nonce\<close> is a Go \<^verbatim>\<open>int\<close>, taken as 64 bits wide: \<^verbatim>\<open>Nonce++\<close> wraps around.
  \<^verbatim>\<open>time.Now().String()\<close> is an input of \<open>addBlockHlukhov\<close>.
\<close>

record BlockHlukhov =
  Index :: int
  Timestamp :: string
  Data :: string
  PrevHash :: string
  Hash :: string
  Nonce :: "64 word"

record BlockchainHlukhov =
  Blocks :: "BlockHlukhov list"

definition calculateHashHlukhov :: "BlockHlukhov \<Rightarrow> string" where
  "calculateHashHlukhov block =
     (let record = strconv_Itoa (BlockHlukhov.Index block) @ BlockHlukhov.Timestamp block
            @ Data block @ PrevHash block @ strconv_Itoa (sint (BlockHlukhov.Nonce block))
      in hex_EncodeToString (sha256_Sum256 (bytes_of record)))"

text \<open>The loop of \<open>addBlockHlukhov\<close>; \<open>None\<close> is a loop that never ends.\<close>

partial_function (option) mineHlukhov :: "BlockHlukhov \<Rightarrow> BlockHlukhov option" where
  "mineHlukhov newBlock =
     (let newBlock = newBlock\<lparr>BlockHlukhov.Hash := calculateHashHlukhov newBlock\<rparr>
      in if strings_HasSuffix (BlockHlukhov.Hash newBlock) ''09'' then Some newBlock
         else mineHlukhov (newBlock\<lparr>BlockHlukhov.Nonce := BlockHlukhov.Nonce newBlock + 1\<rparr>))"

definition addBlockHlukhov ::
  "BlockchainHlukhov \<Rightarrow> string \<Rightarrow> string \<Rightarrow> (error + BlockchainHlukhov) option" where
  "addBlockHlukhov bc data now =
     (if Blocks bc = [] then Some (Inl IndexOutOfRange)
      else
        let prevBlock = last (Blocks bc);
            newBlock = \<lparr>Index = int (length (Blocks bc)), Timestamp = now, Data = data,
                        PrevHash = BlockHlukhov.Hash prevBlock, Hash = [], Nonce = 0\<rparr>
        in case mineHlukhov newBlock of
             None \<Rightarrow> None
           | Some newBlock \<Rightarrow> Some (Inr (bc\<lparr>Blocks := Blocks bc @ [newBlock]\<rparr>)))"

definition createGenesisBlockHlukhov :: "string \<Rightarrow> BlockHlukhov" where
  "createGenesisBlockHlukhov now =
     (let genesis = \<lparr>Index = 0, Timestamp = now, Data = ''Genesis Block'',
                      PrevHash = ''Hlukhov'', Hash = [], Nonce = 18092004\<rparr>
      in genesis\<lparr>BlockHlukhov.Hash := calculateHashHlukhov genesis\<rparr>)"

section \<open>The ledger service\<close>

text \<open>
  \<^verbatim>\<open>float64\<close> amounts are real numbers here: the arithmetic of the model is exact, the
  rounding of the machine type is not part of it. \<^verbatim>\<open>Index\<close> and the timestamps are
  integers; \<^verbatim>\<open>Nonce\<close> is an \<^verbatim>\<open>int64\<close> that the search increments, so it is a 64-bit
  word read as signed. The mutexes are left out: every function below runs as one atomic
  step, which is what the lock it takes gives it.
\<close>

record Transaction =
  ID :: string
  From :: string
  To :: string
  Amount :: real
  Timestamp :: int

record Block =
  Index :: int
  Timestamp :: int
  Transactions :: "Transaction list"
  Nonce :: "64 word"
  PreviousHash :: string
  Hash :: string

record Blockchain =
  Chain :: "Block list"
  Difficulty :: int

record Mempool =
  Txs :: "Transaction list"

text \<open>
  \<^verbatim>\<open>json.Marshal\<close> on a transaction list is a parameter \<open>jm\<close> of the model, the string
  \<^verbatim>\<open>string(b)\<close> of \<^verbatim>\<open>b, _ := json.Marshal(txs)\<close>: no general property below depends
  on what it returns.
\<close>

type_synonym marshal = "Transaction list \<Rightarrow> string"

definition transactionsToString :: "marshal \<Rightarrow> Transaction list \<Rightarrow> string" where
  "transactionsToString jm txs = (if length txs = 0 then [] else jm txs)"

definition calculateHash :: "marshal \<Rightarrow> Block \<Rightarrow> string" where
  "calculateHash jm b =
     (let record = strconv_Itoa (Block.Index b) @ strconv_FormatInt (Block.Timestamp b)
            @ transactionsToString jm (Transactions b) @ strconv_FormatInt (sint (Block.Nonce b))
            @ PreviousHash b
      in hex_EncodeToString (sha256_Sum256 (bytes_of record)))"

text \<open>\<open>init\<close>; the reading of the clock is its argument.\<close>

definition init :: "marshal \<Rightarrow> int \<Rightarrow> Blockchain \<times> Mempool" where
  "init jm now =
     (let genesis = \<lparr>Index = 0, Timestamp = now, Transactions = [], Nonce = 0,
                      PreviousHash = ''0'', Hash = []\<rparr>;
          genesis = genesis\<lparr>Block.Hash := calculateHash jm genesis\<rparr>
      in (\<lparr>Chain = [] @ [genesis], Difficulty = 3\<rparr>, \<lparr>Txs = []\<rparr>))"

text \<open>\<open>createTransaction\<close>; \<open>rid\<close> is what \<open>randomID\<close> returns, \<open>now\<close> the clock.\<close>

definition createTransaction :: "string \<Rightarrow> int \<Rightarrow> string \<Rightarrow> string \<Rightarrow> real \<Rightarrow> Transaction" where
  "createTransaction rid now from to amount =
     \<lparr>ID = rid, From = from, To = to, Amount = amount, Transaction.Timestamp = now\<rparr>"

definition addTransactionToMempool :: "Mempool \<Rightarrow> Transaction \<Rightarrow> Mempool" where
  "addTransactionToMempool mempool tx = mempool\<lparr>Txs := Txs mempool @ [tx]\<rparr>"

definition flushMempool :: "Mempool \<Rightarrow> int \<Rightarrow> Transaction list \<times> Mempool" where
  "flushMempool mempool n =
     (let n = (if n \<le> 0 \<or> n > int (length (Txs mempool)) then int (length (Txs mempool)) else n);
          selected = take (nat n) (Txs mempool)
      in (selected, mempool\<lparr>Txs := drop (nat n) (Txs mempool)\<rparr>))"

text \<open>The loop of \<open>proofOfWork\<close>; \<open>None\<close> is a search that never ends.\<close>

partial_function (option) proofOfWork_loop ::
  "marshal \<Rightarrow> Block \<Rightarrow> string \<Rightarrow> 64 word \<Rightarrow> (64 word \<times> string) option" where
  "proofOfWork_loop jm b targetPrefix nonce =
     (let hash = calculateHash jm (b\<lparr>Block.Nonce := nonce\<rparr>)
      in if strings_HasPrefix hash targetPrefix then Some (nonce, hash)
         else proofOfWork_loop jm b targetPrefix (nonce + 1))"

definition proofOfWork :: "marshal \<Rightarrow> Block \<Rightarrow> int \<Rightarrow> (error + 64 word \<times> string) option" where
  "proofOfWork jm b difficulty =
     (case strings_Repeat ''0'' difficulty of
        Inl e \<Rightarrow> Some (Inl e)
      | Inr targetPrefix \<Rightarrow> map_option Inr (proofOfWork_loop jm b targetPrefix 0))"

definition addBlock :: "Blockchain \<Rightarrow> Block \<Rightarrow> Blockchain" where
  "addBlock bc b = bc\<lparr>Chain := Chain bc @ [b]\<rparr>"

text \<open>\<open>getLastBlock\<close> indexes the chain at \<open>len - 1\<close>, which panics on an empty chain.\<close>

definition getLastBlock :: "Blockchain \<Rightarrow> error + Block" where
  "getLastBlock bc =
     (if length (Chain bc) = 0 then Inl IndexOutOfRange
      else Inr (Chain bc ! (length (Chain bc) - 1)))"



subsection \<open>The request handlers\<close>

text \<open>
  \<^verbatim>\<open>POST /transactions\<close>. The argument of \<open>ShouldBindJSON\<close> is the request body as
  \<^verbatim>\<open>encoding/json\<close> decodes it into the handler's struct: \<open>None\<close> when it does not decode,
  a field the request leaves out at its zero value. The binding tags then ask for
  \<^verbatim>\<open>required\<close> (not the zero value) on all three fields and \<^verbatim>\<open>gt=0\<close> on the amount; the
  result \<open>None\<close> is a non-nil \<^verbatim>\<open>err\<close>.
\<close>

record TransactionBody =
  BodyFrom :: string
  BodyTo :: string
  BodyAmount :: real

datatype response =
  StatusCreated Transaction
  | StatusBadRequest
  | StatusOK Block
  | StatusInternalServerError

definition ShouldBindJSON :: "TransactionBody option \<Rightarrow> TransactionBody option" where
  "ShouldBindJSON decoded =
     (case decoded of
        None \<Rightarrow> None
      | Some body \<Rightarrow>
          if BodyFrom body \<noteq> [] \<and> BodyTo body \<noteq> [] \<and> BodyAmount body \<noteq> 0 \<and> BodyAmount body > 0
          then Some body else None)"

definition postTransactions ::
  "TransactionBody option \<Rightarrow> string \<Rightarrow> int \<Rightarrow> Mempool \<Rightarrow> response \<times> Mempool" where
  "postTransactions request rid now mempool =
     (case ShouldBindJSON request of
        None \<Rightarrow> (StatusBadRequest, mempool)
      | Some body \<Rightarrow>
          let tx = createTransaction rid now (BodyFrom body) (BodyTo body) (BodyAmount body)
          in (StatusCreated tx, addTransactionToMempool mempool tx))"

text \<open>
  \<^verbatim>\<open>POST /mine\<close>. A call is the request (\<open>ReqMaxTxs\<close> and \<open>ReqMiner\<close>, \<open>None\<close> for a field
  that \<^verbatim>\<open>BindJSON\<close> does not set, which keeps the default) together with what the
  environment answers while the handler runs: the random identifier and the clock reading
  of the reward transaction, and the clock reading of the block.
\<close>

record MineCall =
  ReqMaxTxs :: "int option"
  ReqMiner :: "string option"
  RewardID :: string
  RewardTime :: int
  BlockTime :: int

record MineBody =
  MaxTxs :: int
  Miner :: string

definition BindJSON :: "MineCall \<Rightarrow> MineBody" where
  "BindJSON call =
     \<lparr>MaxTxs = (case ReqMaxTxs call of None \<Rightarrow> 10 | Some n \<Rightarrow> n),
      Miner = (case ReqMiner call of None \<Rightarrow> ''miner-reward'' | Some m \<Rightarrow> m)\<rparr>"

text \<open>
  The handler up to the call of \<open>addBlock\<close>: it drains the mempool, reads the tip and
  searches the nonce. It writes the mempool and only reads the chain.
\<close>

definition mine_prepare ::
  "marshal \<Rightarrow> MineCall \<Rightarrow> Blockchain \<Rightarrow> Mempool \<Rightarrow> ((error + Block) \<times> Mempool) option" where
  "mine_prepare jm call bc mempool =
     (let body = BindJSON call;
          (selected, mempool) = flushMempool mempool (MaxTxs body);
          reward = \<lparr>ID = RewardID call, From = ''network'', To = Miner body, Amount = 1,
                     Transaction.Timestamp = RewardTime call\<rparr>;
          selected = [reward] @ selected
      in case getLastBlock bc of
           Inl e \<Rightarrow> Some (Inl e, mempool)
         | Inr lastb \<Rightarrow>
             let newBlock = \<lparr>Index = Block.Index lastb + 1, Timestamp = BlockTime call,
                               Transactions = selected, Nonce = 0,
                               PreviousHash = Block.Hash lastb, Hash = []\<rparr>
             in case proofOfWork jm newBlock (Difficulty bc) of
                  None \<Rightarrow> None
                | Some (Inl e) \<Rightarrow> Some (Inl e, mempool)
                | Some (Inr (nonce, hash)) \<Rightarrow>
                    Some (Inr (newBlock\<lparr>Block.Nonce := nonce, Block.Hash := hash\<rparr>), mempool))"

text \<open>The whole handler, run with no other request in between.\<close>

definition postMine ::
  "marshal \<Rightarrow> MineCall \<Rightarrow> Blockchain \<times> Mempool \<Rightarrow> (response \<times> Blockchain \<times> Mempool) option" where
  "postMine jm call s =
     (case mine_prepare jm call (fst s) (snd s) of
        None \<Rightarrow> None
      | Some (Inl e, mempool) \<Rightarrow> Some (StatusInternalServerError, fst s, mempool)
      | Some (Inr newBlock, mempool) \<Rightarrow>
          Some (StatusOK newBlock, addBlock (fst s) newBlock, mempool))"

text \<open>
  Two handlers that overlap: both have drained the mempool and read the tip before either
  calls \<open>addBlock\<close>; then the first appends, then the second. Each of these steps holds
  the lock it needs, so this is an order in which the server can run two requests. The
  result is \<open>None\<close> when one of the two does not get as far as \<open>addBlock\<close>.
\<close>

definition postMine_overlapped ::
  "marshal \<Rightarrow> MineCall \<Rightarrow> MineCall \<Rightarrow> Blockchain \<times> Mempool
     \<Rightarrow> ((response \<times> response) \<times> Blockchain \<times> Mempool) option" where
  "postMine_overlapped jm call1 call2 s =
     (case mine_prepare jm call1 (fst s) (snd s) of
        Some (Inr newBlock1, mempool1) \<Rightarrow>
          (case mine_prepare jm call2 (fst s) mempool1 of
             Some (Inr newBlock2, mempool2) \<Rightarrow>
               Some ((StatusOK newBlock1, StatusOK newBlock2),
                     addBlock (addBlock (fst s) newBlock1) newBlock2, mempool2)
           | _ \<Rightarrow> None)
      | _ \<Rightarrow> None)"

subsection \<open>Reachable states and the chain invariant\<close>

text \<open>
  The two globals are written by \<open>init\<close>, \<open>addTransactionToMempool\<close>, \<open>flushMempool\<close> and
  \<open>addBlock\<close> and by nothing else, each under its lock. \<open>reachable\<close> closes the initial
  state under these four with any argument, so it holds of every state that the handlers
  produce, in whatever order their steps run.
\<close>

inductive reachable :: "marshal \<Rightarrow> Blockchain \<times> Mempool \<Rightarrow> bool" for jm :: marshal where
  reachable_init: "reachable jm (init jm now)"
| reachable_add: "reachable jm (bc, mp) \<Longrightarrow> reachable jm (bc, addTransactionToMempool mp tx)"
| reachable_flush: "reachable jm (bc, mp) \<Longrightarrow> reachable jm (bc, snd (flushMempool mp n))"
| reachable_block: "reachable jm (bc, mp) \<Longrightarrow> reachable jm (addBlock bc b, mp)"

text \<open>Every block after the first names its predecessor's hash and carries its own.\<close>

fun linked :: "marshal \<Rightarrow> Block list \<Rightarrow> bool" where
  "linked jm (a # b # bs) \<longleftrightarrow>
     PreviousHash b = Block.Hash a \<and> Block.Hash b = calculateHash jm b \<and> linked jm (b # bs)"
| "linked jm bs \<longleftrightarrow> True"

text \<open>The states that requests handled one after the other produce.\<close>

inductive sequential :: "marshal \<Rightarrow> Blockchain \<times> Mempool \<Rightarrow> bool" for jm :: marshal where
  sequential_init: "sequential jm (init jm now)"
| sequential_submit:
    "sequential jm (bc, mp) \<Longrightarrow> sequential jm (bc, snd (postTransactions request rid now mp))"
| sequential_mine:
    "sequential jm s \<Longrightarrow> postMine jm call s = Some (r, s') \<Longrightarrow> sequential jm s'"



subsection \<open>A marshaller and concrete states for the examples\<close>

text \<open>
  \<open>json_Marshal_plain\<close> writes what \<^verbatim>\<open>json.Marshal\<close> writes for a list of transactions
  whose strings are printable ASCII with no character that JSON escapes, and whose amounts
  are whole numbers below \<open>10 ^ 21\<close>: the fields in the order of the struct, under the
  names of their tags, no white space. The examples below stay inside that range.
\<close>

definition json_quote :: "string \<Rightarrow> string" where
  "json_quote s = [CHR 0x22] @ s @ [CHR 0x22]"

definition json_field :: "string \<Rightarrow> string \<Rightarrow> string" where
  "json_field name v = json_quote name @ '':'' @ v"

definition json_Transaction :: "Transaction \<Rightarrow> string" where
  "json_Transaction t =
     ''{'' @ json_field ''id'' (json_quote (ID t)) @ '','' @
     json_field ''from'' (json_quote (From t)) @ '','' @
     json_field ''to'' (json_quote (To t)) @ '','' @
     json_field ''amount'' (digits10 (nat \<lfloor>Amount t\<rfloor>)) @ '','' @
     json_field ''timestamp'' (strconv_FormatInt (Transaction.Timestamp t)) @ ''}''"

fun json_join :: "string list \<Rightarrow> string" where
  "json_join [] = []"
| "json_join [x] = x"
| "json_join (x # y # ys) = x @ '','' @ json_join (y # ys)"

definition json_Marshal_plain :: marshal where
  "json_Marshal_plain txs = ''['' @ json_join (map json_Transaction txs) @ '']''"

text \<open>The service started at second 1700000000 of the clock.\<close>

definition state0 :: "Blockchain \<times> Mempool" where
  "state0 = init json_Marshal_plain 1700000000"

text \<open>A block that continues nothing: wrong index, wrong previous hash, no hash of its own.\<close>

definition stray_block :: Block where
  "stray_block =
     \<lparr>Index = 7, Timestamp = 1700000001, Transactions = [], Nonce = 0,
      PreviousHash = ''none'', Hash = ''none''\<rparr>"

text \<open>A ledger with one payment in a block and one payment pending.\<close>

definition pay_alice_bob :: Transaction where
  "pay_alice_bob =
     \<lparr>ID = ''00000000000000a1'', From = ''alice'', To = ''bob'', Amount = 5,
      Transaction.Timestamp = 1700000010\<rparr>"

definition pay_bob_alice :: Transaction where
  "pay_bob_alice =
     \<lparr>ID = ''00000000000000a2'', From = ''bob'', To = ''alice'', Amount = 2,
      Transaction.Timestamp = 1700000020\<rparr>"


definition mempool1 :: Mempool where
  "mempool1 = \<lparr>Txs = [pay_bob_alice]\<rparr>"

text \<open>The calls, blocks and states of the examples, with the hashes that the code computes.\<close>

definition genesis0 :: Block where
  "genesis0 =
     \<lparr>Index = 0, Timestamp = 1700000000, Transactions = [], Nonce = 0, PreviousHash = ''0'',
      Hash = ''37f57659f355b43b3daeeaab7b535744335dcdeca20c1e5b124f1ff64a5d2d44''\<rparr>"

definition callA :: MineCall where
  "callA =
     \<lparr>ReqMaxTxs = None, ReqMiner = None, RewardID = ''c3ca5be471c385b9'', RewardTime = 1700000060,
      BlockTime = 1700000060\<rparr>"

definition blockA :: Block where
  "blockA =
     \<lparr>Index = 1, Timestamp = 1700000060,
      Transactions =
        [\<lparr>ID = ''c3ca5be471c385b9'', From = ''network'', To = ''miner-reward'', Amount = 1,
          Transaction.Timestamp = 1700000060\<rparr>],
      Nonce = 0,
      PreviousHash = ''37f57659f355b43b3daeeaab7b535744335dcdeca20c1e5b124f1ff64a5d2d44'',
      Hash = ''0000a0ec6ccedfd78ad1ffbeed84aa4f72a6d85e12266f506e6223c3c57b1f64''\<rparr>"

definition callB :: MineCall where
  "callB =
     \<lparr>ReqMaxTxs = None, ReqMiner = None, RewardID = ''689b2aa6a718f061'', RewardTime = 1700000061,
      BlockTime = 1700000061\<rparr>"

definition blockB :: Block where
  "blockB =
     \<lparr>Index = 1, Timestamp = 1700000061,
      Transactions =
        [\<lparr>ID = ''689b2aa6a718f061'', From = ''network'', To = ''miner-reward'', Amount = 1,
          Transaction.Timestamp = 1700000061\<rparr>],
      Nonce = 0,
      PreviousHash = ''37f57659f355b43b3daeeaab7b535744335dcdeca20c1e5b124f1ff64a5d2d44'',
      Hash = ''0002a194365b360240b18e9e4c8e6eddf7e732070ebf9f50223d8c55935599fe''\<rparr>"

definition callC :: MineCall where
  "callC =
     \<lparr>ReqMaxTxs = Some 0, ReqMiner = None, RewardID = ''4bb03388db685759'', RewardTime = 1700000090,
      BlockTime = 1700000090\<rparr>"

definition blockC :: Block where
  "blockC =
     \<lparr>Index = 1, Timestamp = 1700000090,
      Transactions =
        [\<lparr>ID = ''4bb03388db685759'', From = ''network'', To = ''miner-reward'', Amount = 1,
          Transaction.Timestamp = 1700000090\<rparr>, pay_alice_bob],
      Nonce = 0,
      PreviousHash = ''37f57659f355b43b3daeeaab7b535744335dcdeca20c1e5b124f1ff64a5d2d44'',
      Hash = ''000277482861325339644f7382278c6db913357274e775d9c0bc2ccb94092154''\<rparr>"

definition state1 :: "Blockchain \<times> Mempool" where
  "state1 =
     (fst state0,
      snd (postTransactions (Some \<lparr>BodyFrom = ''alice'', BodyTo = ''bob'', BodyAmount = 5\<rparr>)
             ''00000000000000a1'' 1700000010 (snd state0)))"

definition chainHlukhov :: BlockchainHlukhov where
  "chainHlukhov =
     \<lparr>Blocks = [createGenesisBlockHlukhov
                   ''2024-05-01 10:00:00.000000001 +0000 UTC m=+0.000100001'']\<rparr>"

definition nowHlukhov :: string where
  "nowHlukhov = ''2024-05-01 10:00:00.000100060 +0000 UTC m=+0.000200060''"

section \<open>Properties\<close>

subsection \<open>The mempool\<close>

text \<open>
  C4. \<open>flushMempool\<close> returns a prefix of the pending sequence and leaves the matching
  suffix: the whole sequence when the count is not positive or exceeds the length, the
  first \<open>n\<close> transactions otherwise; the length of what it returns is
  \<open>min n (length p)\<close> for a positive count, and prefix and suffix together are the
  sequence it found. On an empty sequence both are empty.
\<close>

theorem flushMempool_prefix_suffix:
  "fst (flushMempool mp n) =
     take (if n \<le> 0 \<or> int (length (Txs mp)) < n then length (Txs mp) else nat n) (Txs mp)
   \<and> Txs (snd (flushMempool mp n)) =
     drop (if n \<le> 0 \<or> int (length (Txs mp)) < n then length (Txs mp) else nat n) (Txs mp)
   \<and> length (fst (flushMempool mp n)) =
     (if 0 < n then min (nat n) (length (Txs mp)) else length (Txs mp))
   \<and> fst (flushMempool mp n) @ Txs (snd (flushMempool mp n)) = Txs mp
   \<and> fst (flushMempool (mp\<lparr>Txs := []\<rparr>) n) = []"
  by (auto simp: flushMempool_def Let_def)

subsection \<open>Appending a block\<close>

text \<open>
  C1, as the code has it. \<open>addBlock\<close> checks nothing and has no failure: whatever the
  block, the chain afterwards is the chain before followed by that block, which is then the
  last block; the difficulty stays.
\<close>

theorem addBlock_appends_unchecked:
  "Chain (addBlock bc b) = Chain bc @ [b]
   \<and> length (Chain (addBlock bc b)) = length (Chain bc) + 1
   \<and> take (length (Chain bc)) (Chain (addBlock bc b)) = Chain bc
   \<and> getLastBlock (addBlock bc b) = Inr b
   \<and> Difficulty (addBlock bc b) = Difficulty bc"
  by (simp add: addBlock_def getLastBlock_def)

lemma Chain_state0:
  "Chain (fst state0) =
     [\<lparr>Index = 0, Timestamp = 1700000000, Transactions = [], Nonce = 0, PreviousHash = ''0'',
       Hash = calculateHash json_Marshal_plain
         \<lparr>Index = 0, Timestamp = 1700000000, Transactions = [], Nonce = 0,
          PreviousHash = ''0'', Hash = []\<rparr>\<rparr>]"
  by (simp add: state0_def init_def Let_def)

text \<open>
  C1 fails on the code: the stray block has index 7 where the tip has index 0, and it is
  appended to the initial chain all the same.
\<close>

theorem addBlock_stray_counterexample:
  "Block.Index stray_block \<noteq> Block.Index (last (Chain (fst state0))) + 1
   \<and> Chain (addBlock (fst state0) stray_block) \<noteq> Chain (fst state0)
   \<and> length (Chain (addBlock (fst state0) stray_block)) = 2"
  by (simp add: Chain_state0 addBlock_def stray_block_def)

subsection \<open>Balances\<close>







subsection \<open>Submitting a transaction\<close>

text \<open>
  C8. A submission whose body decodes with a non-empty sender, a non-empty recipient and a
  positive amount is answered with the created transaction, which has these three values,
  the generated identifier and the reading of the clock taken while the request is handled,
  and which is put at the end of the pending sequence; draining the mempool then returns it
  last, unchanged. Every other submission is answered with a bad request and leaves the
  mempool as it was.
\<close>

theorem postTransactions_validates:
  "postTransactions request rid now mp =
     (case request of
        None \<Rightarrow> (StatusBadRequest, mp)
      | Some body \<Rightarrow>
          if BodyFrom body \<noteq> [] \<and> BodyTo body \<noteq> [] \<and> 0 < BodyAmount body
          then (StatusCreated
                  \<lparr>ID = rid, From = BodyFrom body, To = BodyTo body, Amount = BodyAmount body,
                   Transaction.Timestamp = now\<rparr>,
                mp\<lparr>Txs := Txs mp @
                  [\<lparr>ID = rid, From = BodyFrom body, To = BodyTo body, Amount = BodyAmount body,
                    Transaction.Timestamp = now\<rparr>]\<rparr>)
          else (StatusBadRequest, mp))
   \<and> length (Txs (snd (postTransactions request rid now mp))) =
       (if fst (postTransactions request rid now mp) = StatusBadRequest
        then length (Txs mp) else length (Txs mp) + 1)
   \<and> fst (flushMempool (snd (postTransactions request rid now mp)) 0) =
       Txs (snd (postTransactions request rid now mp))"
  by (auto simp: postTransactions_def ShouldBindJSON_def createTransaction_def
      addTransactionToMempool_def flushMempool_def Let_def split: option.splits)

subsection \<open>The chain is never empty\<close>

lemma reachable_chain:
  "reachable jm s \<Longrightarrow> Chain (fst s) \<noteq> [] \<and> Block.Index (hd (Chain (fst s))) = 0"
  by (induction rule: reachable.induct) (simp_all add: init_def Let_def addBlock_def)

text \<open>
  C10. In every reachable state the chain is not empty and starts with the block of index
  0, so \<open>getLastBlock\<close> reads inside the chain: it returns the last block and does not
  fail.
\<close>

theorem getLastBlock_never_fails:
  "reachable jm s \<Longrightarrow>
     Chain (fst s) \<noteq> [] \<and> Block.Index (hd (Chain (fst s))) = 0
     \<and> getLastBlock (fst s) = Inr (last (Chain (fst s)))"
  using reachable_chain [of jm s] by (simp add: getLastBlock_def last_conv_nth)

theorem getLastBlock_never_fails_witness:
  "reachable json_Marshal_plain
     (addBlock (fst state0) stray_block, snd (flushMempool (addTransactionToMempool (snd state0) pay_alice_bob) 1))
   \<and> getLastBlock (addBlock (fst state0) stray_block) = Inr stray_block"
proof -
  have r: "reachable json_Marshal_plain
     (addBlock (fst state0) stray_block, snd (flushMempool (addTransactionToMempool (snd state0) pay_alice_bob) 1))"
    unfolding state0_def
    by (intro reachable_block reachable_flush reachable_add) (simp add: reachable_init)
  from getLastBlock_never_fails [OF r] r show ?thesis
    by (simp add: addBlock_def)
qed

subsection \<open>The nonce search\<close>

lemma proofOfWork_loop_first:
  assumes "proofOfWork_loop jm b tp n0 = Some r"
  shows "\<exists>k. fst r = n0 + of_nat k
           \<and> snd r = calculateHash jm (b\<lparr>Block.Nonce := fst r\<rparr>)
           \<and> strings_HasPrefix (snd r) tp
           \<and> (\<forall>j<k. \<not> strings_HasPrefix (calculateHash jm (b\<lparr>Block.Nonce := n0 + of_nat j\<rparr>)) tp)"
  using assms
proof (induction rule: proofOfWork_loop.raw_induct [rotated 1, consumes 1])
  case (1 loop jm b tp n0 r)
  show ?case
  proof (cases "strings_HasPrefix (calculateHash jm (b\<lparr>Block.Nonce := n0\<rparr>)) tp")
    case True
    with 1(2) have "r = (n0, calculateHash jm (b\<lparr>Block.Nonce := n0\<rparr>))"
      by (simp add: Let_def)
    with True show ?thesis
      by (intro exI [of _ 0]) simp
  next
    case False
    with 1(2) have "loop jm b tp (n0 + 1) = Some r"
      by (simp add: Let_def)
    from 1(1) [OF this] obtain k where k:
      "fst r = n0 + 1 + of_nat k"
      "snd r = calculateHash jm (b\<lparr>Block.Nonce := fst r\<rparr>)"
      "strings_HasPrefix (snd r) tp"
      "\<forall>j<k. \<not> strings_HasPrefix (calculateHash jm (b\<lparr>Block.Nonce := n0 + 1 + of_nat j\<rparr>)) tp"
      by blast
    have "\<not> strings_HasPrefix (calculateHash jm (b\<lparr>Block.Nonce := n0 + of_nat j\<rparr>)) tp"
      if "j < Suc k" for j
    proof (cases j)
      case 0
      with False show ?thesis by simp
    next
      case (Suc i)
      with that k(4) have "\<not> strings_HasPrefix (calculateHash jm (b\<lparr>Block.Nonce := n0 + 1 + of_nat i\<rparr>)) tp"
        by simp
      with Suc show ?thesis by (simp add: add.assoc)
    qed
    with k(1-3) show ?thesis
      by (intro exI [of _ "Suc k"]) (simp add: add.assoc)
  qed
qed

lemma proofOfWork_loop_least:
  assumes "proofOfWork_loop jm b tp 0 = Some (nonce, hash)"
  shows "hash = calculateHash jm (b\<lparr>Block.Nonce := nonce\<rparr>)"
    and "strings_HasPrefix hash tp"
    and "m < nonce \<Longrightarrow> \<not> strings_HasPrefix (calculateHash jm (b\<lparr>Block.Nonce := m\<rparr>)) tp"
proof -
  from proofOfWork_loop_first [OF assms] obtain k where k:
    "nonce = of_nat k"
    "hash = calculateHash jm (b\<lparr>Block.Nonce := nonce\<rparr>)"
    "strings_HasPrefix hash tp"
    "\<forall>j<k. \<not> strings_HasPrefix (calculateHash jm (b\<lparr>Block.Nonce := of_nat j\<rparr>)) tp"
    by auto
  show "hash = calculateHash jm (b\<lparr>Block.Nonce := nonce\<rparr>)" and "strings_HasPrefix hash tp"
    by (fact k)+
  have "unat nonce \<le> k"
    unfolding k(1) by (simp add: unat_of_nat)
  show "\<not> strings_HasPrefix (calculateHash jm (b\<lparr>Block.Nonce := m\<rparr>)) tp" if "m < nonce"
  proof -
    from that have "unat m < unat nonce" by (simp add: word_less_nat_alt)
    with \<open>unat nonce \<le> k\<close> have "unat m < k" by simp
    with k(4) have "\<not> strings_HasPrefix (calculateHash jm (b\<lparr>Block.Nonce := of_nat (unat m)\<rparr>)) tp"
      by blast
    then show ?thesis by simp
  qed
qed





subsection \<open>lab1: the search for the suffix\<close>

lemma calculateHashHlukhov_Hash [simp]:
  "calculateHashHlukhov (nb\<lparr>BlockHlukhov.Hash := h\<rparr>) = calculateHashHlukhov nb"
  "calculateHashHlukhov (nb\<lparr>BlockHlukhov.Hash := h, BlockHlukhov.Nonce := n\<rparr>) =
     calculateHashHlukhov (nb\<lparr>BlockHlukhov.Nonce := n\<rparr>)"
  by (simp_all add: calculateHashHlukhov_def)

lemma unat_succ_below:
  fixes x m :: "64 word"
  assumes "unat x < unat m"
  shows "unat (x + 1) = Suc (unat x)"
proof -
  have "unat m < 2 ^ 64" using unsigned_less [of m, where 'a = nat] by simp
  with assms have "unat x + 1 < 2 ^ 64" by simp
  then show ?thesis by (simp add: unat_word_ariths)
qed

lemma mineHlukhov_finds:
  assumes "strings_HasSuffix (calculateHashHlukhov (nb\<lparr>BlockHlukhov.Nonce := m\<rparr>)) ''09''"
    and "unat (BlockHlukhov.Nonce nb) \<le> unat m"
  shows "\<exists>n. mineHlukhov nb =
            Some (nb\<lparr>BlockHlukhov.Hash := calculateHashHlukhov (nb\<lparr>BlockHlukhov.Nonce := n\<rparr>),
                     BlockHlukhov.Nonce := n\<rparr>)
          \<and> strings_HasSuffix (calculateHashHlukhov (nb\<lparr>BlockHlukhov.Nonce := n\<rparr>)) ''09''
          \<and> unat n \<le> unat m"
  using assms
proof (induction "unat m - unat (BlockHlukhov.Nonce nb)" arbitrary: nb)
  case 0
  then have "BlockHlukhov.Nonce nb = m" by (simp add: word_unat_eq_iff)
  with 0(2) have here: "strings_HasSuffix (calculateHashHlukhov nb) ''09''" by auto
  then have "mineHlukhov nb = Some (nb\<lparr>BlockHlukhov.Hash := calculateHashHlukhov nb\<rparr>)"
    by (subst mineHlukhov.simps) (simp add: Let_def)
  with here 0(3) show ?case
    by (intro exI [of _ "BlockHlukhov.Nonce nb"]) simp
next
  case (Suc d)
  show ?case
  proof (cases "strings_HasSuffix (calculateHashHlukhov nb) ''09''")
    case True
    then have "mineHlukhov nb = Some (nb\<lparr>BlockHlukhov.Hash := calculateHashHlukhov nb\<rparr>)"
      by (subst mineHlukhov.simps) (simp add: Let_def)
    with True Suc(4) show ?thesis
      by (intro exI [of _ "BlockHlukhov.Nonce nb"]) simp
  next
    case False
    define nb' where
      "nb' = nb\<lparr>BlockHlukhov.Hash := calculateHashHlukhov nb,
                BlockHlukhov.Nonce := BlockHlukhov.Nonce nb + 1\<rparr>"
    from Suc(2) have lt: "unat (BlockHlukhov.Nonce nb) < unat m" by simp
    have nonce': "unat (BlockHlukhov.Nonce nb') = Suc (unat (BlockHlukhov.Nonce nb))"
      by (simp add: nb'_def unat_succ_below [OF lt])
    have step: "mineHlukhov nb = mineHlukhov nb'"
      using False by (subst mineHlukhov.simps) (simp add: Let_def nb'_def)
    have "d = unat m - unat (BlockHlukhov.Nonce nb')" using Suc(2) nonce' by simp
    moreover have "strings_HasSuffix (calculateHashHlukhov (nb'\<lparr>BlockHlukhov.Nonce := m\<rparr>)) ''09''"
      using Suc(3) by (simp add: nb'_def)
    moreover have "unat (BlockHlukhov.Nonce nb') \<le> unat m" using lt nonce' by simp
    ultimately obtain n where n:
      "mineHlukhov nb' =
         Some (nb'\<lparr>BlockHlukhov.Hash := calculateHashHlukhov (nb'\<lparr>BlockHlukhov.Nonce := n\<rparr>),
                   BlockHlukhov.Nonce := n\<rparr>)"
      "strings_HasSuffix (calculateHashHlukhov (nb'\<lparr>BlockHlukhov.Nonce := n\<rparr>)) ''09''"
      "unat n \<le> unat m"
      using Suc(1) [of nb'] by blast
    from n step show ?thesis
      by (intro exI [of _ n]) (simp add: nb'_def)
  qed
qed

lemma mineHlukhov_no_nonce:
  assumes "mineHlukhov nb = Some r"
  shows "\<exists>n. strings_HasSuffix (calculateHashHlukhov (nb\<lparr>BlockHlukhov.Nonce := n\<rparr>)) ''09''"
  using assms
proof (induction rule: mineHlukhov.raw_induct [rotated 1, consumes 1])
  case (1 loop nb r)
  show ?case
  proof (cases "strings_HasSuffix (calculateHashHlukhov nb) ''09''")
    case True
    then show ?thesis by (intro exI [of _ "BlockHlukhov.Nonce nb"]) simp
  next
    case False
    with 1(2) have "loop (nb\<lparr>BlockHlukhov.Hash := calculateHashHlukhov nb,
         BlockHlukhov.Nonce := BlockHlukhov.Nonce nb + 1\<rparr>) = Some r"
      by (simp add: Let_def)
    from 1(1) [OF this] show ?thesis by simp
  qed
qed

text \<open>
  C9, for a chain that is not empty. If some nonce gives the new block a hash that ends
  in \<open>09\<close>, then \<open>addBlockHlukhov\<close> returns: it appends one block, whose hash ends in
  \<open>09\<close> and is \<open>calculateHashHlukhov\<close> of that block, whose nonce is not beyond the given
  one in the order of the search, and whose other fields are the ones \<open>addBlockHlukhov\<close>
  sets.
\<close>

theorem addBlockHlukhov_terminates:
  assumes "Blocks bc \<noteq> []"
    and "strings_HasSuffix (calculateHashHlukhov
           \<lparr>BlockHlukhov.Index = int (length (Blocks bc)), BlockHlukhov.Timestamp = now, Data = data,
            PrevHash = BlockHlukhov.Hash (last (Blocks bc)), BlockHlukhov.Hash = [],
            BlockHlukhov.Nonce = m\<rparr>) ''09''"
  shows "\<exists>nb. addBlockHlukhov bc data now = Some (Inr (bc\<lparr>Blocks := Blocks bc @ [nb]\<rparr>))
           \<and> strings_HasSuffix (BlockHlukhov.Hash nb) ''09''
           \<and> BlockHlukhov.Hash nb = calculateHashHlukhov nb
           \<and> unat (BlockHlukhov.Nonce nb) \<le> unat m
           \<and> BlockHlukhov.Index nb = int (length (Blocks bc))
           \<and> BlockHlukhov.Timestamp nb = now \<and> Data nb = data
           \<and> PrevHash nb = BlockHlukhov.Hash (last (Blocks bc))"
proof -
  define nb0 where
    "nb0 = \<lparr>BlockHlukhov.Index = int (length (Blocks bc)), BlockHlukhov.Timestamp = now, Data = data,
            PrevHash = BlockHlukhov.Hash (last (Blocks bc)), BlockHlukhov.Hash = [],
            BlockHlukhov.Nonce = (0 :: 64 word)\<rparr>"
  have "strings_HasSuffix (calculateHashHlukhov (nb0\<lparr>BlockHlukhov.Nonce := m\<rparr>)) ''09''"
    using assms(2) by (simp add: nb0_def)
  moreover have "unat (BlockHlukhov.Nonce nb0) \<le> unat m" by (simp add: nb0_def)
  ultimately obtain n where n:
    "mineHlukhov nb0 =
       Some (nb0\<lparr>BlockHlukhov.Hash := calculateHashHlukhov (nb0\<lparr>BlockHlukhov.Nonce := n\<rparr>),
                 BlockHlukhov.Nonce := n\<rparr>)"
    "strings_HasSuffix (calculateHashHlukhov (nb0\<lparr>BlockHlukhov.Nonce := n\<rparr>)) ''09''"
    "unat n \<le> unat m"
    using mineHlukhov_finds [where nb = nb0 and m = m] by blast
  let ?nb = "nb0\<lparr>BlockHlukhov.Hash := calculateHashHlukhov (nb0\<lparr>BlockHlukhov.Nonce := n\<rparr>),
                 BlockHlukhov.Nonce := n\<rparr>"
  have "addBlockHlukhov bc data now = Some (Inr (bc\<lparr>Blocks := Blocks bc @ [?nb]\<rparr>))"
    using assms(1) n(1) by (simp add: addBlockHlukhov_def Let_def nb0_def)
  moreover have "BlockHlukhov.Hash ?nb = calculateHashHlukhov ?nb"
    by (simp add: calculateHashHlukhov_def)
  ultimately show ?thesis
    using n(2,3) by (intro exI [of _ ?nb]) (simp add: nb0_def)
qed

text \<open>Without such a nonce the loop never ends, and on an empty chain the call panics.\<close>

lemma addBlockHlukhov_no_nonce:
  assumes "Blocks bc \<noteq> []"
    and "\<And>n. \<not> strings_HasSuffix (calculateHashHlukhov
           \<lparr>BlockHlukhov.Index = int (length (Blocks bc)), BlockHlukhov.Timestamp = now, Data = data,
            PrevHash = BlockHlukhov.Hash (last (Blocks bc)), BlockHlukhov.Hash = [],
            BlockHlukhov.Nonce = n\<rparr>) ''09''"
  shows "addBlockHlukhov bc data now = None"
proof -
  have "mineHlukhov \<lparr>BlockHlukhov.Index = int (length (Blocks bc)), BlockHlukhov.Timestamp = now, Data = data,
      PrevHash = BlockHlukhov.Hash (last (Blocks bc)), BlockHlukhov.Hash = [],
            BlockHlukhov.Nonce = 0\<rparr> = None"
  proof (rule ccontr)
    assume "mineHlukhov \<lparr>BlockHlukhov.Index = int (length (Blocks bc)), BlockHlukhov.Timestamp = now, Data = data,
      PrevHash = BlockHlukhov.Hash (last (Blocks bc)), BlockHlukhov.Hash = [],
            BlockHlukhov.Nonce = 0\<rparr> \<noteq> None"
    then obtain r where "mineHlukhov \<lparr>BlockHlukhov.Index = int (length (Blocks bc)), BlockHlukhov.Timestamp = now,
      Data = data, PrevHash = BlockHlukhov.Hash (last (Blocks bc)), BlockHlukhov.Hash = [],
            BlockHlukhov.Nonce = 0\<rparr> = Some r"
      by blast
    from mineHlukhov_no_nonce [OF this] assms(2) show False by simp
  qed
  with assms(1) show ?thesis by (simp add: addBlockHlukhov_def Let_def)
qed

theorem addBlockHlukhov_empty_counterexample:
  "addBlockHlukhov \<lparr>Blocks = []\<rparr> ''My first block''
     ''2024-05-01 10:00:00.000000001 +0000 UTC m=+0.000100001'' = Some (Inl IndexOutOfRange)"
  by (simp add: addBlockHlukhov_def)

subsection \<open>Evaluating the hashes of the examples\<close>

lemma len_foldl: "length xs = foldl (\<lambda>n x. n + 1) 0 xs"
proof -
  have "foldl (\<lambda>n x. n + 1) k xs = k + length xs" for k
    by (induction xs arbitrary: k) auto
  from this [of 0] show ?thesis by simp
qed

lemma replicate_num: "replicate (numeral k) x = x # replicate (pred_numeral k) x"
  by (simp add: numeral_eq_Suc)

lemmas sha_block = K256_def add32_def rotr_def bsig0_def bsig1_def ssig0_def ssig1_def
  ch_def maj_def next_w_def block256_def Let_def

lemmas sha_message = sha256_Sum256_def pad256_def bytes_of_def len_foldl replicate_num
  bytes64_def bytes32_def init256_def hexdigit_def hex_EncodeToString_def

lemmas record_string = calculateHash_def Let_def transactionsToString_def strconv_Itoa_def
  strconv_FormatInt_def digits10.simps digit10_def json_Marshal_plain_def json_Transaction_def
  json_field_def json_quote_def

lemma calculateHash_Hash [simp]:
  "calculateHash jm (b\<lparr>Block.Hash := h\<rparr>) = calculateHash jm b"
  "calculateHash jm (b\<lparr>Block.Nonce := n, Block.Hash := h\<rparr>) =
     calculateHash jm (b\<lparr>Block.Nonce := n\<rparr>)"
  by (simp_all add: calculateHash_def)

lemma sha_genesis_1:
  "block256
     [1779033703, 3144134277, 1013904242, 2773480762, 1359893119, 2600822924, 528734635,
      1541459225]
     [808531760, 808464432, 808464432, 813694976, 0, 0, 0, 0, 0, 0, 0, 0, 0, 0, 0, 104] =
     [938833497, 4082480187, 1034873515, 2069059396, 861785580, 2718703195, 307175414,
      1247620420]"
  by (simp add: sha_block)

lemma sha_A_1:
  "block256
     [1779033703, 3144134277, 1013904242, 2773480762, 1359893119, 2600822924, 528734635,
      1541459225]
     [825308976, 808464432, 808857691, 2065852772, 574235235, 862150965, 1650799671,
      828584760, 895629602, 740451954, 1869423162, 577660276, 2003792491, 573317748,
      1864514082, 1835626085] =
     [1538802068, 3859403703, 1919453864, 2000600381, 3982227088, 1363474311, 490513960,
      618976111]"
  by (simp add: sha_block)

lemma sha_A_2:
  "block256
     [1538802068, 3859403703, 1919453864, 2000600381, 3982227088, 1363474311, 490513960,
      618976111]
     [1915581029, 2002874980, 573317729, 1836021102, 1948400177, 740455529, 1835365236,
      1634562082, 976303920, 808464432, 808857725, 1563439927, 1714763574, 892954163,
      892690996, 862073700] =
     [4165076130, 3725876683, 3823227621, 3296538471, 852711758, 2648917555, 3602218779,
      3746979547]"
  by (simp add: sha_block)

lemma sha_A_3:
  "block256
     [4165076130, 3725876683, 3823227621, 3296538471, 852711758, 2648917555, 3602218779,
      3746979547]
     [1634035041, 1633826658, 892548407, 875836211, 895771492, 1701011762, 811807077,
      895627570, 879112550, 1714828385, 895758948, 875855872, 0, 0, 0, 1392] =
     [41196, 1825497047, 2329018302, 3984894543, 1923536990, 304508752, 1851925443,
      3313180516]"
  by (simp add: sha_block)

lemma sha_B_1:
  "block256
     [1779033703, 3144134277, 1013904242, 2773480762, 1359893119, 2600822924, 528734635,
      1541459225]
     [825308976, 808464432, 808857947, 2065852772, 574235190, 943284786, 1633760865,
      925972582, 808857890, 740451954, 1869423162, 577660276, 2003792491, 573317748,
      1864514082, 1835626085] =
     [452703294, 2514366084, 1077304144, 1528962711, 3876905702, 2262623242, 1835725859,
      1252105578]"
  by (simp add: sha_block)

lemma sha_B_2:
  "block256
     [452703294, 2514366084, 1077304144, 1528962711, 3876905702, 2262623242, 1835725859,
      1252105578]
     [1915581029, 2002874980, 573317729, 1836021102, 1948400177, 740455529, 1835365236,
      1634562082, 976303920, 808464432, 808857981, 1563439927, 1714763574, 892954163,
      892690996, 862073700] =
     [1018021824, 434963996, 3647335699, 4051828006, 1667157452, 4078910510, 1319823180,
      4209490709]"
  by (simp add: sha_block)

lemma sha_B_3:
  "block256
     [1018021824, 434963996, 3647335699, 4051828006, 1667157452, 4078910510, 1319823180,
      4209490709]
     [1634035041, 1633826658, 892548407, 875836211, 895771492, 1701011762, 811807077,
      895627570, 879112550, 1714828385, 895758948, 875855872, 0, 0, 0, 1392] =
     [172436, 911947266, 1085378206, 1284402909, 4159123975, 247439184, 574458965,
      2471860734]"
  by (simp add: sha_block)

lemma sha_C_1:
  "block256
     [1779033703, 3144134277, 1013904242, 2773480762, 1359893119, 2600822924, 528734635,
      1541459225]
     [825308976, 808464432, 809054299, 2065852772, 574235188, 1650602035, 859322468,
      1647720501, 926234914, 740451954, 1869423162, 577660276, 2003792491, 573317748,
      1864514082, 1835626085] =
     [2880107978, 1109155302, 1067130026, 2442593044, 2588427130, 494027056, 1871587823,
      3306125581]"
  by (simp add: sha_block)

lemma sha_C_2:
  "block256
     [2880107978, 1109155302, 1067130026, 2442593044, 2588427130, 494027056, 1871587823,
      3306125581]
     [1915581029, 2002874980, 573317729, 1836021102, 1948400177, 740455529, 1835365236,
      1634562082, 976303920, 808464432, 809054333, 746267241, 1679964706, 808464432, 808464432,
      808464432] =
     [2114033431, 2401321981, 7345627, 1651785935, 2948198022, 4071539636, 4141738541,
      2297894137]"
  by (simp add: sha_block)

lemma sha_C_3:
  "block256
     [2114033431, 2401321981, 7345627, 1651785935, 2948198022, 4071539636, 4141738541,
      2297894137]
     [808476977, 573317734, 1919905058, 975331692, 1768121634, 740455535, 574235234,
      1868702252, 576810351, 1970172962, 976563234, 1953066341, 1937006957, 1881291313,
      925904944, 808464433] =
     [1912672103, 3587864886, 4029980586, 158255008, 3751865136, 3995926456, 188361086,
      2693718821]"
  by (simp add: sha_block)

lemma sha_C_4:
  "block256
     [1912672103, 3587864886, 4029980586, 158255008, 3751865136, 3995926456, 188361086,
      2693718821]
     [813522224, 859268661, 926299449, 1714631989, 1647588194, 862216549, 1700880738,
      929183027, 892810292, 858994020, 1667523939, 1630679139, 828716386, 825373798, 828794422,
      878785892] =
     [500991633, 314255592, 2305367022, 1792344657, 1716004115, 3379997590, 2713626389,
      3656485373]"
  by (simp add: sha_block)

lemma sha_C_5:
  "block256
     [500991633, 314255592, 2305367022, 1792344657, 1716004115, 3379997590, 2713626389,
      3656485373]
     [845427764, 2147483648, 0, 0, 0, 0, 0, 0, 0, 0, 0, 0, 0, 0, 0, 2080] =
     [161608, 677458515, 962875251, 2183629933, 3105043826, 1961326041, 3233557707,
      2483626324]"
  by (simp add: sha_block)

lemma calculateHash_genesis0: "calculateHash json_Marshal_plain genesis0 = Block.Hash genesis0"
  by (simp add: genesis0_def record_string sha_message sha_genesis_1)

lemma state0_genesis0: "state0 = (\<lparr>Chain = [genesis0], Difficulty = 3\<rparr>, \<lparr>Txs = []\<rparr>)"
proof -
  have "calculateHash json_Marshal_plain (genesis0\<lparr>Block.Hash := []\<rparr>) = Block.Hash genesis0"
    by (simp add: calculateHash_genesis0)
  then show ?thesis
    unfolding state0_def init_def Let_def
    by (simp add: genesis0_def)
qed

lemma calculateHash_blockA: "calculateHash json_Marshal_plain blockA = Block.Hash blockA"
  by (simp add: blockA_def record_string sha_message sha_A_1 sha_A_2 sha_A_3)

lemma proofOfWork_blockA:
  "proofOfWork json_Marshal_plain (blockA\<lparr>Block.Hash := []\<rparr>) 3 =
     Some (Inr (0, Block.Hash blockA))"
proof -
  have nonce: "blockA\<lparr>Block.Hash := [], Block.Nonce := 0\<rparr> = blockA\<lparr>Block.Hash := []\<rparr>"
    by (simp add: blockA_def)
  have zeros: "strings_HasPrefix (Block.Hash blockA) ''000''"
    by (simp add: blockA_def strings_HasPrefix_def)
  have "proofOfWork_loop json_Marshal_plain (blockA\<lparr>Block.Hash := []\<rparr>) ''000'' 0 =
      Some (0, Block.Hash blockA)"
    by (subst proofOfWork_loop.simps) (simp add: Let_def nonce calculateHash_blockA zeros)
  then show ?thesis
    by (simp add: proofOfWork_def strings_Repeat_def replicate_num)
qed

lemma calculateHash_blockB: "calculateHash json_Marshal_plain blockB = Block.Hash blockB"
  by (simp add: blockB_def record_string sha_message sha_B_1 sha_B_2 sha_B_3)

lemma proofOfWork_blockB:
  "proofOfWork json_Marshal_plain (blockB\<lparr>Block.Hash := []\<rparr>) 3 =
     Some (Inr (0, Block.Hash blockB))"
proof -
  have nonce: "blockB\<lparr>Block.Hash := [], Block.Nonce := 0\<rparr> = blockB\<lparr>Block.Hash := []\<rparr>"
    by (simp add: blockB_def)
  have zeros: "strings_HasPrefix (Block.Hash blockB) ''000''"
    by (simp add: blockB_def strings_HasPrefix_def)
  have "proofOfWork_loop json_Marshal_plain (blockB\<lparr>Block.Hash := []\<rparr>) ''000'' 0 =
      Some (0, Block.Hash blockB)"
    by (subst proofOfWork_loop.simps) (simp add: Let_def nonce calculateHash_blockB zeros)
  then show ?thesis
    by (simp add: proofOfWork_def strings_Repeat_def replicate_num)
qed

lemma calculateHash_blockC: "calculateHash json_Marshal_plain blockC = Block.Hash blockC"
  by (simp add: blockC_def pay_alice_bob_def record_string sha_message sha_C_1 sha_C_2 sha_C_3 sha_C_4 sha_C_5)

lemma proofOfWork_blockC:
  "proofOfWork json_Marshal_plain (blockC\<lparr>Block.Hash := []\<rparr>) 3 =
     Some (Inr (0, Block.Hash blockC))"
proof -
  have nonce: "blockC\<lparr>Block.Hash := [], Block.Nonce := 0\<rparr> = blockC\<lparr>Block.Hash := []\<rparr>"
    by (simp add: blockC_def)
  have zeros: "strings_HasPrefix (Block.Hash blockC) ''000''"
    by (simp add: blockC_def strings_HasPrefix_def)
  have "proofOfWork_loop json_Marshal_plain (blockC\<lparr>Block.Hash := []\<rparr>) ''000'' 0 =
      Some (0, Block.Hash blockC)"
    by (subst proofOfWork_loop.simps) (simp add: Let_def nonce calculateHash_blockC zeros)
  then show ?thesis
    by (simp add: proofOfWork_def strings_Repeat_def replicate_num)
qed

subsection \<open>The handlers on the concrete calls\<close>

lemma mine_prepare_callA:
  "mine_prepare json_Marshal_plain callA (fst state0) \<lparr>Txs = []\<rparr> = Some (Inr blockA, \<lparr>Txs = []\<rparr>)"
  using proofOfWork_blockA
  by (simp add: mine_prepare_def BindJSON_def callA_def flushMempool_def getLastBlock_def
      state0_genesis0 genesis0_def blockA_def Let_def)

lemma mine_prepare_callB:
  "mine_prepare json_Marshal_plain callB (fst state0) \<lparr>Txs = []\<rparr> = Some (Inr blockB, \<lparr>Txs = []\<rparr>)"
  using proofOfWork_blockB
  by (simp add: mine_prepare_def BindJSON_def callB_def flushMempool_def getLastBlock_def
      state0_genesis0 genesis0_def blockB_def Let_def)

lemma snd_state1: "snd state1 = \<lparr>Txs = [pay_alice_bob]\<rparr>"
  by (simp add: state1_def state0_genesis0 postTransactions_def ShouldBindJSON_def
      createTransaction_def addTransactionToMempool_def pay_alice_bob_def Let_def)

lemma fst_state1: "fst state1 = \<lparr>Chain = [genesis0], Difficulty = 3\<rparr>"
  by (simp add: state1_def state0_genesis0)

lemma mine_prepare_callC:
  "mine_prepare json_Marshal_plain callC (fst state1) (snd state1) = Some (Inr blockC, \<lparr>Txs = []\<rparr>)"
  using proofOfWork_blockC
  by (simp add: fst_state1 snd_state1 mine_prepare_def BindJSON_def callC_def flushMempool_def
      getLastBlock_def genesis0_def blockC_def Let_def)

lemma postMine_callC:
  "postMine json_Marshal_plain callC state1 =
     Some (StatusOK blockC, addBlock (fst state1) blockC, \<lparr>Txs = []\<rparr>)"
  by (simp add: postMine_def mine_prepare_callC)

lemma postMine_overlapped_AB:
  "postMine_overlapped json_Marshal_plain callA callB state0 =
     Some ((StatusOK blockA, StatusOK blockB),
           addBlock (addBlock (fst state0) blockA) blockB, \<lparr>Txs = []\<rparr>)"
proof -
  have "snd state0 = \<lparr>Txs = []\<rparr>" by (simp add: state0_genesis0)
  then show ?thesis
    by (simp add: postMine_overlapped_def mine_prepare_callA mine_prepare_callB)
qed


subsection \<open>What a block mined by the handler holds\<close>

text \<open>
  C5, as the code has it. When the handler returns a block, its transactions are the reward
  transaction (sender \<open>network\<close>, amount 1, the requested recipient or \<open>miner-reward\<close>)
  followed by the first \<open>k\<close> pending transactions, and the mempool keeps the rest, where
  \<open>k\<close> is the whole length when the count is not positive or exceeds the length, and the count
  otherwise; the count is 10 when the request names none. The block is appended to the chain.
\<close>

theorem postMine_block_and_mempool:
  assumes "postMine jm call s = Some (StatusOK blk, bc', mp')"
  shows "Transactions blk =
           \<lparr>ID = RewardID call, From = ''network'',
            To = (case ReqMiner call of None \<Rightarrow> ''miner-reward'' | Some m \<Rightarrow> m), Amount = 1,
            Transaction.Timestamp = RewardTime call\<rparr>
           # fst (flushMempool (snd s) (case ReqMaxTxs call of None \<Rightarrow> 10 | Some n \<Rightarrow> n))
    \<and> mp' = snd (flushMempool (snd s) (case ReqMaxTxs call of None \<Rightarrow> 10 | Some n \<Rightarrow> n))
    \<and> length (Transactions blk) + length (Txs mp') = 1 + length (Txs (snd s))
    \<and> Chain bc' = Chain (fst s) @ [blk]"
  using assms
  by (auto simp: postMine_def mine_prepare_def BindJSON_def Let_def addBlock_def
      flushMempool_def split: prod.splits sum.splits option.splits)

theorem postMine_block_and_mempool_witness:
  "postMine json_Marshal_plain callC state1 =
     Some (StatusOK blockC, addBlock (fst state1) blockC, \<lparr>Txs = []\<rparr>)
   \<and> Transactions blockC =
       [\<lparr>ID = RewardID callC, From = ''network'', To = ''miner-reward'', Amount = 1,
         Transaction.Timestamp = RewardTime callC\<rparr>, pay_alice_bob]
   \<and> Chain (addBlock (fst state1) blockC) = [genesis0, blockC]"
  using postMine_block_and_mempool [OF postMine_callC] postMine_callC
  by (simp add: callC_def fst_state1 snd_state1 flushMempool_def addBlock_def Let_def)

text \<open>
  C5 fails on the code for a count that is not positive: with one transaction pending and
  \<^verbatim>\<open>max_txs\<close> 0 the claim gives a block of \<open>1 + min 0 1 = 1\<close> transaction and a mempool of 1,
  the handler returns a block of 2 and leaves the mempool empty.
\<close>

theorem postMine_zero_count_counterexample:
  "postMine json_Marshal_plain callC state1 =
     Some (StatusOK blockC, addBlock (fst state1) blockC, \<lparr>Txs = []\<rparr>)
   \<and> MaxTxs (BindJSON callC) = 0
   \<and> length (Txs (snd state1)) = 1
   \<and> length (Transactions blockC) = 2
   \<and> 1 + min (MaxTxs (BindJSON callC)) (int (length (Txs (snd state1)))) = 1"
proof -
  have "MaxTxs (BindJSON callC) = 0" by (simp add: BindJSON_def callC_def)
  moreover have "length (Txs (snd state1)) = 1" by (simp add: snd_state1)
  moreover have "length (Transactions blockC) = 2" by (simp add: blockC_def)
  ultimately show ?thesis using postMine_callC by simp
qed

subsection \<open>Two mine requests on the same tip\<close>




subsection \<open>The chain invariant\<close>

lemma linked_snoc:
  "linked jm (bs @ [b]) \<longleftrightarrow>
     linked jm bs \<and> (bs \<noteq> [] \<longrightarrow> PreviousHash b = Block.Hash (last bs) \<and> Block.Hash b = calculateHash jm b)"
  by (induction jm bs rule: linked.induct) auto

lemma postMine_linked:
  assumes "postMine jm call s = Some (r, s')" and "linked jm (Chain (fst s))"
  shows "linked jm (Chain (fst s'))"
proof (cases "mine_prepare jm call (fst s) (snd s)")
  case None
  with assms(1) show ?thesis by (simp add: postMine_def)
next
  case (Some p)
  show ?thesis
  proof (cases "fst p")
    case (Inl e)
    with Some assms show ?thesis
      by (cases p) (auto simp: postMine_def)
  next
    case (Inr nb)
    with Some have prep: "mine_prepare jm call (fst s) (snd s) = Some (Inr nb, snd p)"
      by (cases p) simp
    from prep have hash: "Block.Hash nb = calculateHash jm nb"
      by (auto simp: mine_prepare_def Let_def proofOfWork_def calculateHash_def
          split: prod.splits sum.splits option.splits dest!: proofOfWork_loop_least(1))
    from prep have "PreviousHash nb = Block.Hash (last (Chain (fst s)))"
      by (auto simp: mine_prepare_def Let_def getLastBlock_def last_conv_nth
          split: prod.splits sum.splits option.splits if_splits)
    moreover from prep assms(1) have "Chain (fst s') = Chain (fst s) @ [nb]"
      by (auto simp: postMine_def addBlock_def)
    ultimately show ?thesis
      using assms(2) hash by (simp add: linked_snoc)
  qed
qed

text \<open>
  C2 for requests handled one after the other: every block after the first names the hash
  of the block before it and carries the hash of its own fields.
\<close>

lemma sequential_linked: "sequential jm s \<Longrightarrow> linked jm (Chain (fst s))"
proof (induction rule: sequential.induct)
  case (sequential_init now)
  show ?case by (simp add: init_def Let_def)
next
  case (sequential_submit bc mp request rid now)
  then show ?case by simp
next
  case (sequential_mine s call r s')
  then show ?case by (simp add: postMine_linked)
qed

text \<open>
  C2 fails on the code when two mine requests overlap. Both candidates are built on the
  genesis block; after both are appended the third block names the hash of the first
  block, not of the second, and has the index of the second.
\<close>

theorem overlapped_chain_not_linked:
  "postMine_overlapped json_Marshal_plain callA callB state0 =
     Some ((StatusOK blockA, StatusOK blockB),
           \<lparr>Chain = [genesis0, blockA, blockB], Difficulty = 3\<rparr>, \<lparr>Txs = []\<rparr>)
   \<and> \<not> linked json_Marshal_plain [genesis0, blockA, blockB]
   \<and> PreviousHash blockB \<noteq> Block.Hash blockA
   \<and> PreviousHash blockB = Block.Hash genesis0
   \<and> Block.Hash blockB = calculateHash json_Marshal_plain blockB
   \<and> Block.Index blockB = Block.Index blockA"
proof -
  have chain: "addBlock (addBlock (fst state0) blockA) blockB =
      \<lparr>Chain = [genesis0, blockA, blockB], Difficulty = 3\<rparr>"
    by (simp add: state0_genesis0 addBlock_def)
  have broken: "PreviousHash blockB \<noteq> Block.Hash blockA"
    by (simp add: blockA_def blockB_def)
  then have "\<not> linked json_Marshal_plain [genesis0, blockA, blockB]"
    by simp
  moreover have "PreviousHash blockB = Block.Hash genesis0" "Block.Index blockB = Block.Index blockA"
    by (simp_all add: blockA_def blockB_def genesis0_def)
  ultimately show ?thesis
    using broken postMine_overlapped_AB calculateHash_blockB
    unfolding chain by simp
qed

subsection \<open>lab1 on its first block\<close>

lemma sha_genesisHlukhov_1:
  "block256
     [1779033703, 3144134277, 1013904242, 2773480762, 1359893119, 2600822924, 528734635,
      1541459225]
     [808595506, 875376693, 758133024, 825244208, 809119792, 774910000, 808464432, 808525867,
      808464432, 542463043, 544029995, 808333360, 808529968, 808464711, 1701733747,
      1769152578] =
     [1191193985, 1968375537, 382400327, 1431694451, 3266558102, 957429380, 529915492,
      2353324376]"
  by (simp add: sha_block)

lemma sha_genesisHlukhov_2:
  "block256
     [1191193985, 1968375537, 382400327, 1431694451, 3266558102, 957429380, 529915492,
      2353324376]
     [1819239275, 1215067499, 1752135217, 942684466, 808465536, 0, 0, 0, 0, 0, 0, 0, 0, 0, 0,
      664] =
     [3154336930, 4138730213, 995317103, 1876463893, 1670548718, 1490031309, 3992154619,
      417016178]"
  by (simp add: sha_block)

lemma sha_blockHlukhov_1:
  "block256
     [1779033703, 3144134277, 1013904242, 2773480762, 1359893119, 2600822924, 528734635,
      1541459225]
     [825372722, 875376693, 758133024, 825244208, 809119792, 774910000, 825241648, 909123627,
      808464432, 542463043, 544029995, 808333360, 808595504, 808857677, 2032166505,
      1920168992] =
     [2723090599, 3620656404, 1359876064, 3362232953, 1698452758, 1798290821, 4019553710,
      2311534999]"
  by (simp add: sha_block)

lemma sha_blockHlukhov_2:
  "block256
     [2723090599, 3620656404, 1359876064, 3362232953, 1698452758, 1798290821, 4019553710,
      2311534999]
     [1651273571, 1801610032, 859136865, 845559394, 808464997, 892559925, 859125046,
      1714841188, 943272241, 892744505, 842556261, 1697986660, 808530531, 1684366438,
      859255142, 1647392868] =
     [2509286420, 2395534019, 1107596483, 3026190094, 3801106389, 1530203216, 1390230452,
      177791949]"
  by (simp add: sha_block)

lemma sha_blockHlukhov_3:
  "block256
     [2509286420, 2395534019, 1107596483, 3026190094, 3801106389, 1530203216, 1390230452,
      177791949]
     [1647458615, 842039296, 0, 0, 0, 0, 0, 0, 0, 0, 0, 0, 0, 0, 0, 1072] =
     [1491974280, 1078327436, 1966344321, 2294696852, 80450791, 1462380622, 472043368,
      2570347273]"
  by (simp add: sha_block)

lemmas record_stringHlukhov = calculateHashHlukhov_def Let_def strconv_Itoa_def
  strconv_FormatInt_def digits10.simps digit10_def

lemma calculateHashHlukhov_genesis:
  "calculateHashHlukhov
     \<lparr>BlockHlukhov.Index = 0,
      BlockHlukhov.Timestamp = ''2024-05-01 10:00:00.000000001 +0000 UTC m=+0.000100001'',
      Data = ''Genesis Block'', PrevHash = ''Hlukhov'', BlockHlukhov.Hash = [],
      BlockHlukhov.Nonce = 18092004\<rparr> =
     ''bc035ca2f6b002e53b53556f6fd8911563928cee58d012cdedf371fb18db2972''"
  by (simp add: record_stringHlukhov sha_message
      sha_genesisHlukhov_1 sha_genesisHlukhov_2)

lemma Hash_genesisHlukhov:
  "BlockHlukhov.Hash (last (Blocks chainHlukhov)) =
     ''bc035ca2f6b002e53b53556f6fd8911563928cee58d012cdedf371fb18db2972''"
  by (simp add: chainHlukhov_def createGenesisBlockHlukhov_def Let_def
      calculateHashHlukhov_genesis)

lemma calculateHashHlukhov_first:
  "calculateHashHlukhov
     \<lparr>BlockHlukhov.Index = 1, BlockHlukhov.Timestamp = nowHlukhov, Data = ''My first block'',
      PrevHash = ''bc035ca2f6b002e53b53556f6fd8911563928cee58d012cdedf371fb18db2972'',
      BlockHlukhov.Hash = [], BlockHlukhov.Nonce = 0\<rparr> =
     ''58edb8884045f88c7534088188c64b9404cb94e7572a284e1c22cf6899346309''"
  by (simp add: nowHlukhov_def record_stringHlukhov sha_message
      sha_blockHlukhov_1 sha_blockHlukhov_2 sha_blockHlukhov_3)

text \<open>
  C9 on the chain that \<open>main\<close> builds first: the genesis block alone, then the block with
  the data of the first call. Nonce 0 already gives a hash that ends in \<open>09\<close>.
\<close>

theorem addBlockHlukhov_terminates_witness:
  "Blocks chainHlukhov \<noteq> []
   \<and> strings_HasSuffix (calculateHashHlukhov
         \<lparr>BlockHlukhov.Index = int (length (Blocks chainHlukhov)),
          BlockHlukhov.Timestamp = nowHlukhov, Data = ''My first block'',
          PrevHash = BlockHlukhov.Hash (last (Blocks chainHlukhov)), BlockHlukhov.Hash = [],
          BlockHlukhov.Nonce = 0\<rparr>) ''09''
   \<and> (\<exists>nb. addBlockHlukhov chainHlukhov ''My first block'' nowHlukhov =
              Some (Inr (chainHlukhov\<lparr>Blocks := Blocks chainHlukhov @ [nb]\<rparr>))
            \<and> strings_HasSuffix (BlockHlukhov.Hash nb) ''09''
            \<and> BlockHlukhov.Hash nb = calculateHashHlukhov nb)"
proof -
  have ne: "Blocks chainHlukhov \<noteq> []" by (simp add: chainHlukhov_def)
  have len: "int (length (Blocks chainHlukhov)) = 1" by (simp add: chainHlukhov_def)
  have suf: "strings_HasSuffix (calculateHashHlukhov
         \<lparr>BlockHlukhov.Index = int (length (Blocks chainHlukhov)),
          BlockHlukhov.Timestamp = nowHlukhov, Data = ''My first block'',
          PrevHash = BlockHlukhov.Hash (last (Blocks chainHlukhov)), BlockHlukhov.Hash = [],
          BlockHlukhov.Nonce = 0\<rparr>) ''09''"
    unfolding len Hash_genesisHlukhov calculateHashHlukhov_first
    by (simp add: strings_HasSuffix_def)
  from addBlockHlukhov_terminates [where bc = chainHlukhov and now = nowHlukhov
      and data = "''My first block''" and m = 0, OF ne suf] ne suf
  show ?thesis by blast
qed

end
